theory Spec2Isabelle
  imports Main "HOL-Library.Word"
begin

section \<open>The battle escrow of \<open>battle_arena::battle\<close>\<close>

text \<open>
  The Move module \<open>battle_arena::battle\<close> holds the stakes of two players in a shared
  \<open>Battle\<close> object. Its four entry functions are \<open>create_battle\<close> (the spec's open),
  \<open>join_battle\<close> (join), \<open>finalize_battle\<close> (settle) and \<open>cancel_battle\<close> (cancel).
  An \<open>assert!\<close> that fails aborts the whole transaction: the model returns \<open>Inl\<close> of the
  abort code and no state, and the state before the call stays the ledger's state.
\<close>

subsection \<open>Data\<close>

type_synonym u64 = "64 word"
type_synonym address = nat
type_synonym ID = nat

text \<open>
  Modelled from the spec: the ledger's fund object \<open>Coin<OCT>\<close> of the framework module
  \<open>one::coin\<close>, which is not part of the repository. Only its value matters here.
\<close>

datatype Coin = Coin (coin_value: u64)

record Battle =
  uid :: ID
  player1 :: address
  player2 :: address
  player1_stake :: Coin
  player2_stake :: "Coin option"
  stake_amount :: u64
  is_ready :: bool
  admin :: address

datatype AdminCap = AdminCap (cap_uid: ID)

datatype event =
    BattleCreated ID address address u64
  | BattleJoined ID address
  | BattleFinalized ID address u64
  | BattleCancelled ID address

text \<open>
  The abort codes of the module, and the aborts of the framework functions it calls
  (\<open>option::fill\<close>, \<open>option::destroy_some\<close>, \<open>option::destroy_none\<close>, the \<open>u64\<close> addition
  inside \<open>coin::join\<close>, \<open>coin::split\<close>) and of a transaction naming an object that its
  sender cannot use.
\<close>

datatype abort =
    ENotAuthorized
  | EBattleAlreadyFull
  | EInvalidStakeAmount
  | EBattleNotReady
  | ECannotJoinOwnBattle
  | EInvalidWinner
  | EPlayer2AlreadyJoined
  | EOptionIsSet
  | EOptionNotSet
  | ArithmeticOverflow
  | ENotEnough
  | ObjectNotFound

fun abort_code :: "abort \<Rightarrow> nat option" where
  "abort_code ENotAuthorized = Some 0"
| "abort_code EBattleAlreadyFull = Some 1"
| "abort_code EInvalidStakeAmount = Some 2"
| "abort_code EBattleNotReady = Some 3"
| "abort_code ECannotJoinOwnBattle = Some 4"
| "abort_code EInvalidWinner = Some 5"
| "abort_code EPlayer2AlreadyJoined = Some 6"
| "abort_code _ = None"

record TxContext =
  tx_sender :: address

text \<open>
  The ledger: the shared \<open>Battle\<close> objects by id, the coin objects and the admin
  capabilities each address owns, the emitted events, and the counter from which
  \<open>object::new\<close> draws fresh ids.
\<close>

record world =
  shared :: "ID \<rightharpoonup> Battle"
  coins :: "address \<Rightarrow> Coin list"
  caps :: "address \<Rightarrow> AdminCap list"
  events :: "event list"
  next_uid :: ID

subsection \<open>Framework primitives\<close>

text \<open>
  Modelled from the spec: the framework calls of \<open>one::object\<close>, \<open>one::event\<close>,
  \<open>one::transfer\<close>, \<open>one::coin\<close> and \<open>std::option\<close> that the module uses (the spec's
  ledger primitives \<open>value\<close>, \<open>merge\<close>, \<open>split\<close>, \<open>transfer\<close> and its event sink).
  Their code is not in the repository.
\<close>

definition object_new :: "world \<Rightarrow> ID \<times> world" where
  "object_new w = (next_uid w, w\<lparr>next_uid := Suc (next_uid w)\<rparr>)"

definition object_delete :: "ID \<Rightarrow> world \<Rightarrow> world" where
  "object_delete i w = w\<lparr>shared := (shared w)(i := None)\<rparr>"

definition event_emit :: "event \<Rightarrow> world \<Rightarrow> world" where
  "event_emit e w = w\<lparr>events := events w @ [e]\<rparr>"

definition share_object :: "Battle \<Rightarrow> world \<Rightarrow> world" where
  "share_object b w = w\<lparr>shared := (shared w)(uid b \<mapsto> b)\<rparr>"

definition public_transfer :: "Coin \<Rightarrow> address \<Rightarrow> world \<Rightarrow> world" where
  "public_transfer c recipient w = w\<lparr>coins := (coins w)(recipient := c # coins w recipient)\<rparr>"

definition transfer_cap :: "AdminCap \<Rightarrow> address \<Rightarrow> world \<Rightarrow> world" where
  "transfer_cap c recipient w = w\<lparr>caps := (caps w)(recipient := c # caps w recipient)\<rparr>"

definition coin_join :: "Coin \<Rightarrow> Coin \<Rightarrow> abort + Coin" where
  "coin_join a b =
     (if unat (coin_value a) + unat (coin_value b) < 2 ^ 64
      then Inr (Coin (coin_value a + coin_value b))
      else Inl ArithmeticOverflow)"

definition coin_split :: "Coin \<Rightarrow> u64 \<Rightarrow> abort + (Coin \<times> Coin)" where
  "coin_split c amount =
     (if coin_value c < amount then Inl ENotEnough
      else Inr (Coin (coin_value c - amount), Coin amount))"

definition option_fill :: "'a option \<Rightarrow> 'a \<Rightarrow> abort + 'a option" where
  "option_fill t e = (case t of None \<Rightarrow> Inr (Some e) | Some _ \<Rightarrow> Inl EOptionIsSet)"

definition option_destroy_some :: "'a option \<Rightarrow> abort + 'a" where
  "option_destroy_some t = (case t of None \<Rightarrow> Inl EOptionNotSet | Some e \<Rightarrow> Inr e)"

definition option_destroy_none :: "'a option \<Rightarrow> abort + unit" where
  "option_destroy_none t = (case t of None \<Rightarrow> Inr () | Some _ \<Rightarrow> Inl EOptionIsSet)"

subsection \<open>The module's functions\<close>

definition init :: "TxContext \<Rightarrow> world \<Rightarrow> world" where
  "init ctx w =
     (let (i, w1) = object_new w;
          admin_cap = AdminCap i
      in transfer_cap admin_cap (tx_sender ctx) w1)"

definition create_battle ::
  "Coin \<Rightarrow> address \<Rightarrow> address \<Rightarrow> TxContext \<Rightarrow> world \<Rightarrow> abort + world" where
  "create_battle stake opponent adm ctx w =
     (let sender = tx_sender ctx in
      if \<not> (sender \<noteq> opponent) then Inl ECannotJoinOwnBattle
      else let stake_amt = coin_value stake in
      if \<not> (stake_amt > 0) then Inl EInvalidStakeAmount
      else let (battle_id, w1) = object_new w;
               battle = \<lparr>uid = battle_id, player1 = sender, player2 = opponent,
                         player1_stake = stake, player2_stake = None,
                         stake_amount = stake_amt, is_ready = False, admin = adm\<rparr>;
               w2 = event_emit (BattleCreated battle_id sender opponent stake_amt) w1
           in Inr (share_object battle w2))"

text \<open>
  \<open>join_battle\<close> takes the battle by mutable reference: the model returns the updated
  battle, which the caller writes back to the shared object.
\<close>

definition join_battle ::
  "Battle \<Rightarrow> Coin \<Rightarrow> TxContext \<Rightarrow> world \<Rightarrow> abort + (Battle \<times> world)" where
  "join_battle battle stake ctx w =
     (let sender = tx_sender ctx in
      if \<not> (sender = player2 battle) then Inl ENotAuthorized
      else if \<not> (player2_stake battle = None) then Inl EPlayer2AlreadyJoined
      else let stake_value = coin_value stake in
      if \<not> (stake_value = stake_amount battle) then Inl EInvalidStakeAmount
      else case option_fill (player2_stake battle) stake of
             Inl e \<Rightarrow> Inl e
           | Inr filled \<Rightarrow>
               let battle1 = battle\<lparr>player2_stake := filled\<rparr>;
                   battle2 = battle1\<lparr>is_ready := True\<rparr>
               in Inr (battle2, event_emit (BattleJoined (uid battle2) sender) w))"

text \<open>
  \<open>finalize_battle\<close> takes the battle by value and unpacks it; the capability is only
  borrowed and never read, and the \<open>admin\<close> and \<open>stake_amount\<close> fields are dropped.
\<close>

definition finalize_battle ::
  "AdminCap \<Rightarrow> Battle \<Rightarrow> address \<Rightarrow> TxContext \<Rightarrow> world \<Rightarrow> abort + world" where
  "finalize_battle admin_cap battle winner ctx w =
     (if \<not> is_ready battle then Inl EBattleNotReady
      else if \<not> (winner = player1 battle \<or> winner = player2 battle) then Inl EInvalidWinner
      else let battle_id = uid battle in
      case option_destroy_some (player2_stake battle) of
        Inl e \<Rightarrow> Inl e
      | Inr player2_coins \<Rightarrow>
          (case coin_join (player1_stake battle) player2_coins of
             Inl e \<Rightarrow> Inl e
           | Inr merged \<Rightarrow>
               let total_prize = coin_value merged;
                   w1 = public_transfer merged winner w;
                   w2 = event_emit (BattleFinalized battle_id winner total_prize) w1
               in Inr (object_delete (uid battle) w2)))"

definition cancel_battle :: "Battle \<Rightarrow> TxContext \<Rightarrow> world \<Rightarrow> abort + world" where
  "cancel_battle battle ctx w =
     (let sender = tx_sender ctx in
      if \<not> (\<not> is_ready battle) then Inl EBattleAlreadyFull
      else if \<not> (sender = player1 battle \<or> sender = admin battle) then Inl ENotAuthorized
      else if \<not> (player2_stake battle = None) then Inl EBattleAlreadyFull
      else let battle_id = uid battle;
               w1 = public_transfer (player1_stake battle) (player1 battle) w;
               w2 = event_emit (BattleCancelled battle_id (player1 battle)) w1
           in case option_destroy_none (player2_stake battle) of
                Inl e \<Rightarrow> Inl e
              | Inr _ \<Rightarrow> Inr (object_delete (uid battle) w2))"

definition get_battle_info :: "Battle \<Rightarrow> address \<times> address \<times> u64 \<times> bool" where
  "get_battle_info battle = (player1 battle, player2 battle, stake_amount battle, is_ready battle)"

definition is_battle_ready :: "Battle \<Rightarrow> bool" where
  "is_battle_ready battle = is_ready battle"

definition get_stake_amount :: "Battle \<Rightarrow> u64" where
  "get_stake_amount battle = stake_amount battle"

subsection \<open>Transactions\<close>

text \<open>
  A transaction against the module, as the test scenarios and the deployment guide build
  it: the sender splits the stake off one of its own coins (the coin at index \<open>ix\<close> of
  the coins it owns), names the shared battle by id, and for \<open>finalize_battle\<close> borrows
  an \<open>AdminCap\<close> that it owns.
\<close>

text \<open>
  Modelled from the spec: the ledger's side of a transaction, which is the chain's and
  not the repository's. A sender can use only objects it owns or shared objects (the
  spec's arbiter capability, whose possession the ledger checks), so a transaction that
  names a coin or an \<open>AdminCap\<close> its sender does not own, or a battle that is not
  shared, does not run (\<open>ObjectNotFound\<close>).
\<close>

datatype tx =
    TxCreate address nat u64 address address
  | TxJoin address ID nat u64
  | TxFinalize address ID address
  | TxCancel address ID

definition split_from_sender :: "address \<Rightarrow> nat \<Rightarrow> u64 \<Rightarrow> world \<Rightarrow> abort + (Coin \<times> world)" where
  "split_from_sender a ix amount w =
     (if \<not> ix < length (coins w a) then Inl ObjectNotFound
      else case coin_split (coins w a ! ix) amount of
             Inl e \<Rightarrow> Inl e
           | Inr (rest, stake) \<Rightarrow>
               Inr (stake, w\<lparr>coins := (coins w)(a := (coins w a)[ix := rest])\<rparr>))"

fun exec :: "tx \<Rightarrow> world \<Rightarrow> abort + world" where
  "exec (TxCreate a ix amount opponent adm) w =
     (case split_from_sender a ix amount w of
        Inl e \<Rightarrow> Inl e
      | Inr (stake, w1) \<Rightarrow> create_battle stake opponent adm \<lparr>tx_sender = a\<rparr> w1)"
| "exec (TxJoin a bid ix amount) w =
     (case shared w bid of
        None \<Rightarrow> Inl ObjectNotFound
      | Some battle \<Rightarrow>
          (case split_from_sender a ix amount w of
             Inl e \<Rightarrow> Inl e
           | Inr (stake, w1) \<Rightarrow>
               (case join_battle battle stake \<lparr>tx_sender = a\<rparr> w1 of
                  Inl e \<Rightarrow> Inl e
                | Inr (battle', w2) \<Rightarrow> Inr (w2\<lparr>shared := (shared w2)(bid \<mapsto> battle')\<rparr>))))"
| "exec (TxFinalize a bid winner) w =
     (case caps w a of
        [] \<Rightarrow> Inl ObjectNotFound
      | admin_cap # _ \<Rightarrow>
          (case shared w bid of
             None \<Rightarrow> Inl ObjectNotFound
           | Some battle \<Rightarrow> finalize_battle admin_cap battle winner \<lparr>tx_sender = a\<rparr> w))"
| "exec (TxCancel a bid) w =
     (case shared w bid of
        None \<Rightarrow> Inl ObjectNotFound
      | Some battle \<Rightarrow> cancel_battle battle \<lparr>tx_sender = a\<rparr> w)"

text \<open>An aborted transaction leaves the ledger as it was.\<close>

definition step :: "tx \<Rightarrow> world \<Rightarrow> world" where
  "step t w = (case exec t w of Inl _ \<Rightarrow> w | Inr w' \<Rightarrow> w')"

definition run :: "tx list \<Rightarrow> world \<Rightarrow> world" where
  "run ts w = fold step ts w"

definition balance :: "world \<Rightarrow> address \<Rightarrow> nat" where
  "balance w a = sum_list (map (\<lambda>c. unat (coin_value c)) (coins w a))"

subsection \<open>The test scenario\<close>

definition ADMIN :: address where "ADMIN = 173"
definition ALICE :: address where "ALICE = 659918"
definition BOB :: address where "BOB = 2827"
definition CHARLIE :: address where "CHARLIE = 12"

text \<open>
  \<open>setup_test\<close>: the module is initialised by \<open>ADMIN\<close>, who receives the \<open>AdminCap\<close>;
  \<open>ALICE\<close> and \<open>BOB\<close> each receive a coin of 2000.
\<close>

definition empty_world :: world where
  "empty_world = \<lparr>shared = Map.empty, coins = (\<lambda>_. []), caps = (\<lambda>_. []), events = [], next_uid = 0\<rparr>"

definition setup_test :: world where
  "setup_test =
     public_transfer (Coin 2000) BOB
       (public_transfer (Coin 2000) ALICE
          (init \<lparr>tx_sender = ADMIN\<rparr> empty_world))"

text \<open>
  The first transactions of \<open>test_finalize_battle_alice_wins\<close>, with the admin address
  that \<open>ALICE\<close> passes to \<open>create_battle\<close> left open: \<open>ALICE\<close> stakes 500 against
  \<open>BOB\<close>, \<open>BOB\<close> joins with 500, and \<open>ADMIN\<close> finalizes for \<open>ALICE\<close>. The battle is the
  object with id 1, the \<open>AdminCap\<close> having taken id 0.
\<close>

definition opened :: "address \<Rightarrow> world" where
  "opened adm = step (TxCreate ALICE 0 500 BOB adm) setup_test"

definition joined :: "address \<Rightarrow> world" where
  "joined adm = step (TxJoin BOB 1 0 500) (opened adm)"

definition finalized :: "address \<Rightarrow> world" where
  "finalized adm = step (TxFinalize ADMIN 1 ALICE) (joined adm)"

subsection \<open>Well-formed battles and ledgers\<close>

definition battle_inv :: "Battle \<Rightarrow> bool" where
  "battle_inv b \<longleftrightarrow>
     (is_ready b \<longleftrightarrow> player2_stake b \<noteq> None)
     \<and> (\<forall>c. player2_stake b = Some c \<longrightarrow> coin_value c = stake_amount b)
     \<and> coin_value (player1_stake b) = stake_amount b
     \<and> 0 < stake_amount b
     \<and> player1 b \<noteq> player2 b"

text \<open>
  Every shared battle is stored under its own id, the id was drawn from the counter, and
  the battle satisfies \<open>battle_inv\<close>.
\<close>

definition wf_world :: "world \<Rightarrow> bool" where
  "wf_world w \<longleftrightarrow>
     (\<forall>i b. shared w i = Some b \<longrightarrow> uid b = i \<and> i < next_uid w \<and> battle_inv b)"

section \<open>Effects of the primitives and of each function\<close>

lemma balance_public_transfer:
  "balance (public_transfer c r w) a =
     (if a = r then unat (coin_value c) + balance w a else balance w a)"
  by (simp add: balance_def public_transfer_def)

lemma sum_list_map_update:
  fixes f :: "'a \<Rightarrow> nat"
  assumes "i < length xs"
  shows "sum_list (map f (xs[i := y])) + f (xs ! i) = sum_list (map f xs) + f y"
  using assms
proof (induction xs arbitrary: i)
  case Nil
  then show ?case by simp
next
  case (Cons x xs)
  then show ?case by (cases i) auto
qed

lemma split_from_sender_Inr:
  assumes "split_from_sender a ix amount w = Inr (stake, w1)"
  shows "coin_value stake = amount"
    and "balance w1 a + unat amount = balance w a"
    and "\<And>a'. a' \<noteq> a \<Longrightarrow> coins w1 a' = coins w a'"
    and "shared w1 = shared w" and "next_uid w1 = next_uid w" and "caps w1 = caps w"
    and "events w1 = events w"
proof -
  from assms have ix: "ix < length (coins w a)"
    by (auto simp: split_from_sender_def split: if_splits)
  from assms ix have le: "amount \<le> coin_value (coins w a ! ix)"
    and st: "stake = Coin amount"
    and w1: "w1 = w\<lparr>coins := (coins w)(a := (coins w a)
               [ix := Coin (coin_value (coins w a ! ix) - amount)])\<rparr>"
    by (auto simp: split_from_sender_def coin_split_def split: if_splits)
  show "coin_value stake = amount" using st by simp
  have "unat (coin_value (coins w a ! ix) - amount) + unat amount
          = unat (coin_value (coins w a ! ix))"
    using le by (simp add: unat_sub word_le_nat_alt)
  then show "balance w1 a + unat amount = balance w a"
    using sum_list_map_update [OF ix, of "\<lambda>c. unat (coin_value c)"
        "Coin (coin_value (coins w a ! ix) - amount)"]
    by (simp add: balance_def w1)
  show "\<And>a'. a' \<noteq> a \<Longrightarrow> coins w1 a' = coins w a'" by (simp add: w1)
  show "shared w1 = shared w" "next_uid w1 = next_uid w" "caps w1 = caps w"
    "events w1 = events w"
    by (simp_all add: w1)
qed

lemma create_battle_Inr:
  assumes "create_battle stake opponent adm ctx w = Inr w'"
  shows "tx_sender ctx \<noteq> opponent" and "0 < coin_value stake"
    and "w' = w\<lparr>next_uid := Suc (next_uid w),
                events := events w @
                  [BattleCreated (next_uid w) (tx_sender ctx) opponent (coin_value stake)],
                shared := (shared w)(next_uid w \<mapsto>
                  \<lparr>uid = next_uid w, player1 = tx_sender ctx, player2 = opponent,
                   player1_stake = stake, player2_stake = None,
                   stake_amount = coin_value stake, is_ready = False, admin = adm\<rparr>)\<rparr>"
  using assms
  by (auto simp: create_battle_def Let_def object_new_def event_emit_def share_object_def
      split: if_splits)

lemma join_battle_Inr:
  assumes "join_battle b stake ctx w = Inr (b', w')"
  shows "tx_sender ctx = player2 b" and "player2_stake b = None"
    and "coin_value stake = stake_amount b"
    and "b' = b\<lparr>player2_stake := Some stake, is_ready := True\<rparr>"
    and "w' = w\<lparr>events := events w @ [BattleJoined (uid b) (player2 b)]\<rparr>"
  using assms
  by (auto simp: join_battle_def Let_def option_fill_def event_emit_def split: if_splits)

lemma finalize_battle_Inr:
  assumes "finalize_battle cap b winner ctx w = Inr w'"
  shows "is_ready b" and "winner = player1 b \<or> winner = player2 b"
    and "\<exists>c2. player2_stake b = Some c2
           \<and> unat (coin_value (player1_stake b)) + unat (coin_value c2) < 2 ^ 64
           \<and> w' = w\<lparr>coins := (coins w)(winner :=
                        Coin (coin_value (player1_stake b) + coin_value c2) # coins w winner),
                      events := events w @ [BattleFinalized (uid b) winner
                        (coin_value (player1_stake b) + coin_value c2)],
                      shared := (shared w)(uid b := None)\<rparr>"
  using assms
  by (auto simp: finalize_battle_def Let_def option_destroy_some_def coin_join_def
      public_transfer_def event_emit_def object_delete_def
      split: if_splits option.splits)

lemma cancel_battle_Inr:
  assumes "cancel_battle b ctx w = Inr w'"
  shows "\<not> is_ready b" and "tx_sender ctx = player1 b \<or> tx_sender ctx = admin b"
    and "player2_stake b = None"
    and "w' = w\<lparr>coins := (coins w)(player1 b := player1_stake b # coins w (player1 b)),
                events := events w @ [BattleCancelled (uid b) (player1 b)],
                shared := (shared w)(uid b := None)\<rparr>"
  using assms
  by (auto simp: cancel_battle_def Let_def option_destroy_none_def
      public_transfer_def event_emit_def object_delete_def
      split: if_splits option.splits)

subsection \<open>Transactions keep the ledger well formed\<close>

lemma wf_world_exec:
  assumes "wf_world w" and "exec t w = Inr w'"
  shows "wf_world w'"
proof (cases t)
  case (TxCreate a ix amount opponent adm)
  with assms(2) obtain stake w1 where
    sp: "split_from_sender a ix amount w = Inr (stake, w1)"
    and cr: "create_battle stake opponent adm \<lparr>tx_sender = a\<rparr> w1 = Inr w'"
    by (auto split: sum.splits prod.splits)
  note s = split_from_sender_Inr [OF sp]
  note c = create_battle_Inr [OF cr]
  show ?thesis
    using assms(1) c(1,2) s(4,5)
    by (auto simp: wf_world_def c(3) battle_inv_def less_Suc_eq)
next
  case (TxJoin a bid ix amount)
  with assms(2) obtain b stake w1 b' w2 where
    b: "shared w bid = Some b"
    and sp: "split_from_sender a ix amount w = Inr (stake, w1)"
    and jo: "join_battle b stake \<lparr>tx_sender = a\<rparr> w1 = Inr (b', w2)"
    and w': "w' = w2\<lparr>shared := (shared w2)(bid \<mapsto> b')\<rparr>"
    by (auto split: sum.splits prod.splits option.splits)
  note s = split_from_sender_Inr [OF sp]
  note j = join_battle_Inr [OF jo]
  from assms(1) b have ib: "uid b = bid" "bid < next_uid w" "battle_inv b"
    by (auto simp: wf_world_def)
  show ?thesis
    using assms(1) ib j(2,3) s(4,5)
    by (auto simp: wf_world_def w' j(4,5) battle_inv_def)
next
  case (TxFinalize a bid winner)
  with assms(2) obtain cap b where
    b: "shared w bid = Some b"
    and fi: "finalize_battle cap b winner \<lparr>tx_sender = a\<rparr> w = Inr w'"
    by (auto split: list.splits option.splits)
  from finalize_battle_Inr(3) [OF fi] show ?thesis
    using assms(1) by (auto simp: wf_world_def split: if_splits)
next
  case (TxCancel a bid)
  with assms(2) obtain b where
    b: "shared w bid = Some b"
    and ca: "cancel_battle b \<lparr>tx_sender = a\<rparr> w = Inr w'"
    by (auto split: option.splits)
  from cancel_battle_Inr(4) [OF ca] show ?thesis
    using assms(1) by (auto simp: wf_world_def split: if_splits)
qed

lemma wf_world_step: "wf_world w \<Longrightarrow> wf_world (step t w)"
  by (auto simp: step_def wf_world_exec split: sum.splits)

lemma wf_world_run: "wf_world w \<Longrightarrow> wf_world (run ts w)"
  unfolding run_def by (induction ts arbitrary: w) (simp_all add: wf_world_step)

lemma wf_world_no_battles: "shared w = Map.empty \<Longrightarrow> wf_world w"
  by (simp add: wf_world_def)

subsection \<open>The test scenario, evaluated\<close>

lemmas addresses = ADMIN_def ALICE_def BOB_def CHARLIE_def

lemmas primitives = object_new_def object_delete_def event_emit_def share_object_def
  public_transfer_def transfer_cap_def coin_join_def coin_split_def option_fill_def
  option_destroy_some_def option_destroy_none_def split_from_sender_def

lemma setup_test_eq:
  "setup_test =
     \<lparr>shared = Map.empty,
      coins = (\<lambda>_. [])(659918 := [Coin 2000], 2827 := [Coin 2000]),
      caps = (\<lambda>_. [])(173 := [AdminCap 0]), events = [], next_uid = Suc 0\<rparr>"
  by (simp add: setup_test_def init_def primitives addresses empty_world_def)

lemma opened_eq:
  "opened adm =
     \<lparr>shared = [Suc 0 \<mapsto>
        \<lparr>uid = Suc 0, player1 = 659918, player2 = 2827, player1_stake = Coin 500,
         player2_stake = None, stake_amount = 500, is_ready = False, admin = adm\<rparr>],
      coins = (\<lambda>_. [])(2827 := [Coin 2000], 659918 := [Coin 1500]),
      caps = (\<lambda>_. [])(173 := [AdminCap 0]),
      events = [BattleCreated (Suc 0) 659918 2827 500], next_uid = Suc (Suc 0)\<rparr>"
  by (simp add: opened_def step_def setup_test_eq primitives addresses create_battle_def
      Let_def)

lemma joined_eq:
  "joined adm =
     \<lparr>shared = [Suc 0 \<mapsto>
        \<lparr>uid = Suc 0, player1 = 659918, player2 = 2827, player1_stake = Coin 500,
         player2_stake = Some (Coin 500), stake_amount = 500, is_ready = True,
         admin = adm\<rparr>],
      coins = (\<lambda>_. [])(659918 := [Coin 1500], 2827 := [Coin 1500]),
      caps = (\<lambda>_. [])(173 := [AdminCap 0]),
      events = [BattleCreated (Suc 0) 659918 2827 500, BattleJoined (Suc 0) 2827],
      next_uid = Suc (Suc 0)\<rparr>"
  by (simp add: joined_def step_def opened_eq primitives addresses join_battle_def Let_def)

lemma finalized_eq:
  "finalized adm =
     \<lparr>shared = Map.empty,
      coins = (\<lambda>_. [])(2827 := [Coin 1500], 659918 := [Coin 1000, Coin 1500]),
      caps = (\<lambda>_. [])(173 := [AdminCap 0]),
      events = [BattleCreated (Suc 0) 659918 2827 500, BattleJoined (Suc 0) 2827,
                BattleFinalized (Suc 0) 659918 1000],
      next_uid = Suc (Suc 0)\<rparr>"
  by (simp add: finalized_def step_def joined_eq primitives addresses finalize_battle_def
      Let_def)

lemma wf_world_setup_test: "wf_world setup_test"
  by (rule wf_world_no_battles) (simp add: setup_test_eq)

lemma wf_world_opened: "wf_world (opened adm)"
  unfolding opened_def by (rule wf_world_step [OF wf_world_setup_test])

lemma wf_world_joined: "wf_world (joined adm)"
  unfolding joined_def by (rule wf_world_step [OF wf_world_opened])

lemma balance_cong: "coins w a = coins w' a \<Longrightarrow> balance w a = balance w' a"
  by (simp add: balance_def)

subsection \<open>What a successful transaction does to the ledger\<close>

lemma exec_create_Inr:
  assumes "exec (TxCreate a ix amount opponent adm) w = Inr w'"
  shows "a \<noteq> opponent" and "0 < amount"
    and "balance w' a + unat amount = balance w a"
    and "\<And>x. x \<noteq> a \<Longrightarrow> coins w' x = coins w x"
    and "shared w' = (shared w)(next_uid w \<mapsto>
           \<lparr>uid = next_uid w, player1 = a, player2 = opponent, player1_stake = Coin amount,
            player2_stake = None, stake_amount = amount, is_ready = False, admin = adm\<rparr>)"
    and "next_uid w' = Suc (next_uid w)" and "caps w' = caps w"
proof -
  from assms obtain stake w1 where
    sp: "split_from_sender a ix amount w = Inr (stake, w1)"
    and cr: "create_battle stake opponent adm \<lparr>tx_sender = a\<rparr> w1 = Inr w'"
    by (auto split: sum.splits prod.splits)
  note s = split_from_sender_Inr [OF sp]
  note c = create_battle_Inr [OF cr]
  from s(1) have st: "stake = Coin amount" by (cases stake) simp
  show "a \<noteq> opponent" using c(1) by simp
  show "0 < amount" using c(2) s(1) by simp
  show "balance w' a + unat amount = balance w a"
    using s(2) by (simp add: c(3) balance_def)
  show "\<And>x. x \<noteq> a \<Longrightarrow> coins w' x = coins w x" using s(3) by (simp add: c(3))
  show "shared w' = (shared w)(next_uid w \<mapsto>
           \<lparr>uid = next_uid w, player1 = a, player2 = opponent, player1_stake = Coin amount,
            player2_stake = None, stake_amount = amount, is_ready = False, admin = adm\<rparr>)"
    by (simp add: c(3) s(4,5) st)
  show "next_uid w' = Suc (next_uid w)" "caps w' = caps w" by (simp_all add: c(3) s(5,6))
qed

lemma exec_join_Inr:
  assumes "exec (TxJoin a bid ix amount) w = Inr w'"
  shows "\<exists>b. shared w bid = Some b \<and> a = player2 b \<and> player2_stake b = None
           \<and> amount = stake_amount b
           \<and> shared w' = (shared w)(bid \<mapsto>
                b\<lparr>player2_stake := Some (Coin amount), is_ready := True\<rparr>)"
    and "balance w' a + unat amount = balance w a"
    and "\<And>x. x \<noteq> a \<Longrightarrow> coins w' x = coins w x"
    and "next_uid w' = next_uid w" and "caps w' = caps w"
proof -
  from assms obtain b stake w1 b' w2 where
    b: "shared w bid = Some b"
    and sp: "split_from_sender a ix amount w = Inr (stake, w1)"
    and jo: "join_battle b stake \<lparr>tx_sender = a\<rparr> w1 = Inr (b', w2)"
    and w': "w' = w2\<lparr>shared := (shared w2)(bid \<mapsto> b')\<rparr>"
    by (auto split: sum.splits prod.splits option.splits)
  note s = split_from_sender_Inr [OF sp]
  note j = join_battle_Inr [OF jo]
  from s(1) have st: "stake = Coin amount" by (cases stake) simp
  show "\<exists>b. shared w bid = Some b \<and> a = player2 b \<and> player2_stake b = None
           \<and> amount = stake_amount b
           \<and> shared w' = (shared w)(bid \<mapsto>
                b\<lparr>player2_stake := Some (Coin amount), is_ready := True\<rparr>)"
    using b j(1,2,3) s(1) by (simp add: w' j(4,5) s(4) st)
  show "balance w' a + unat amount = balance w a"
    using s(2) by (simp add: w' j(5) balance_def)
  show "\<And>x. x \<noteq> a \<Longrightarrow> coins w' x = coins w x" using s(3) by (simp add: w' j(5))
  show "next_uid w' = next_uid w" "caps w' = caps w" by (simp_all add: w' j(5) s(5,6))
qed

lemma exec_finalize_Inr:
  assumes "exec (TxFinalize a bid winner) w = Inr w'"
  shows "\<exists>b c2. caps w a \<noteq> [] \<and> shared w bid = Some b \<and> is_ready b
           \<and> (winner = player1 b \<or> winner = player2 b) \<and> player2_stake b = Some c2
           \<and> unat (coin_value (player1_stake b)) + unat (coin_value c2) < 2 ^ 64
           \<and> coins w' = (coins w)(winner :=
                Coin (coin_value (player1_stake b) + coin_value c2) # coins w winner)
           \<and> shared w' = (shared w)(uid b := None)
           \<and> next_uid w' = next_uid w"
proof -
  from assms obtain cap b where
    c: "caps w a \<noteq> []" and b: "shared w bid = Some b"
    and fi: "finalize_battle cap b winner \<lparr>tx_sender = a\<rparr> w = Inr w'"
    by (auto split: list.splits option.splits)
  from finalize_battle_Inr [OF fi] c b show ?thesis by auto
qed

lemma exec_cancel_Inr:
  assumes "exec (TxCancel a bid) w = Inr w'"
  shows "\<exists>b. shared w bid = Some b \<and> \<not> is_ready b \<and> (a = player1 b \<or> a = admin b)
           \<and> coins w' = (coins w)(player1 b := player1_stake b # coins w (player1 b))
           \<and> shared w' = (shared w)(uid b := None)
           \<and> next_uid w' = next_uid w"
proof -
  from assms obtain b where
    b: "shared w bid = Some b"
    and ca: "cancel_battle b \<lparr>tx_sender = a\<rparr> w = Inr w'"
    by (auto split: option.splits)
  from cancel_battle_Inr [OF ca] b show ?thesis by auto
qed

lemma exec_keeps_stake:
  assumes "wf_world w" and "shared w i = Some b" and "exec t w = Inr w'"
    and "shared w' i = Some b'"
  shows "stake_amount b' = stake_amount b \<and> player1_stake b' = player1_stake b"
proof (cases t)
  case (TxCreate a ix amount opponent adm)
  from assms(1,2) have "i \<noteq> next_uid w" by (auto simp: wf_world_def)
  with exec_create_Inr(5) [OF assms(3) [unfolded TxCreate]] assms(2,4)
  show ?thesis by simp
next
  case (TxJoin a bid ix amount)
  from exec_join_Inr(1) [OF assms(3) [unfolded TxJoin]] assms(2,4)
  show ?thesis by (auto split: if_splits)
next
  case (TxFinalize a bid winner)
  from exec_finalize_Inr [OF assms(3) [unfolded TxFinalize]] assms(2,4)
  show ?thesis by (auto split: if_splits)
next
  case (TxCancel a bid)
  from exec_cancel_Inr [OF assms(3) [unfolded TxCancel]] assms(2,4)
  show ?thesis by (auto split: if_splits)
qed

lemma run_setup_test_joined:
  "run [TxCreate ALICE 0 500 BOB adm, TxJoin BOB 1 0 500] setup_test = joined adm"
  by (simp add: run_def joined_def opened_def)

section \<open>Properties\<close>

subsection \<open>Opening a battle\<close>

text \<open>
  Claim C4. \<open>create_battle\<close> (open) succeeds exactly when the sender differs from the
  opponent and the stake's value is positive. It then shares a new battle, under the
  fresh id, with \<open>is_ready = False\<close>, and leaves every other battle as it was. It aborts
  with \<open>ECannotJoinOwnBattle\<close> (the spec's SelfMatchNotAllowed) when the sender is the
  opponent; that check comes first, so a zero stake against oneself reports it too. It
  aborts with \<open>EInvalidStakeAmount\<close> when the sender differs from the opponent and the
  value is zero. An aborted open transaction leaves the ledger unchanged.
\<close>

theorem create_battle_accepts_iff:
  "((\<exists>w'. create_battle stake opponent adm ctx w = Inr w') \<longleftrightarrow>
      (tx_sender ctx \<noteq> opponent \<and> 0 < coin_value stake))
   \<and> (tx_sender ctx \<noteq> opponent \<and> 0 < coin_value stake \<longrightarrow>
        (\<exists>w' b. create_battle stake opponent adm ctx w = Inr w'
           \<and> shared w' (next_uid w) = Some b
           \<and> \<not> is_ready b \<and> player1 b = tx_sender ctx \<and> player2 b = opponent
           \<and> player1_stake b = stake \<and> player2_stake b = None
           \<and> stake_amount b = coin_value stake
           \<and> (\<forall>i. i \<noteq> next_uid w \<longrightarrow> shared w' i = shared w i)))
   \<and> (tx_sender ctx = opponent \<longrightarrow>
        create_battle stake opponent adm ctx w = Inl ECannotJoinOwnBattle)
   \<and> (tx_sender ctx \<noteq> opponent \<and> coin_value stake = 0 \<longrightarrow>
        create_battle stake opponent adm ctx w = Inl EInvalidStakeAmount)
   \<and> (\<forall>e. exec (TxCreate a ix amount opponent adm) w = Inl e \<longrightarrow>
        step (TxCreate a ix amount opponent adm) w = w)"
  by (auto simp: create_battle_def Let_def object_new_def event_emit_def share_object_def
      step_def word_greater_zero_iff)

theorem create_battle_accepts_iff_witness:
  "ALICE \<noteq> BOB \<and> 0 < coin_value (Coin 500)
   \<and> (\<exists>w' b. create_battle (Coin 500) BOB ADMIN \<lparr>tx_sender = ALICE\<rparr> setup_test = Inr w'
         \<and> shared w' (next_uid setup_test) = Some b \<and> \<not> is_ready b)
   \<and> create_battle (Coin 500) ALICE ADMIN \<lparr>tx_sender = ALICE\<rparr> setup_test
        = Inl ECannotJoinOwnBattle
   \<and> create_battle (Coin 0) BOB ADMIN \<lparr>tx_sender = ALICE\<rparr> setup_test
        = Inl EInvalidStakeAmount
   \<and> exec (TxCreate ALICE 0 0 BOB ADMIN) setup_test = Inl EInvalidStakeAmount
   \<and> step (TxCreate ALICE 0 0 BOB ADMIN) setup_test = setup_test"
proof -
  have ne: "ALICE \<noteq> BOB" by (simp add: addresses)
  have pos: "0 < coin_value (Coin 500)" by simp
  have ex: "exec (TxCreate ALICE 0 0 BOB ADMIN) setup_test = Inl EInvalidStakeAmount"
    by (simp add: setup_test_eq primitives addresses create_battle_def)
  note ok = create_battle_accepts_iff [where stake = "Coin 500" and opponent = BOB
      and adm = ADMIN and ctx = "\<lparr>tx_sender = ALICE\<rparr>" and w = setup_test]
  note self = create_battle_accepts_iff [where stake = "Coin 500" and opponent = ALICE
      and adm = ADMIN and ctx = "\<lparr>tx_sender = ALICE\<rparr>" and w = setup_test]
  note zero = create_battle_accepts_iff [where stake = "Coin 0" and opponent = BOB
      and adm = ADMIN and ctx = "\<lparr>tx_sender = ALICE\<rparr>" and w = setup_test
      and a = ALICE and ix = 0 and amount = 0]
  from ok ne pos have 1: "\<exists>w' b. create_battle (Coin 500) BOB ADMIN \<lparr>tx_sender = ALICE\<rparr> setup_test = Inr w'
         \<and> shared w' (next_uid setup_test) = Some b \<and> \<not> is_ready b"
    by (simp only: TxContext.simps) blast
  from self have 2: "create_battle (Coin 500) ALICE ADMIN \<lparr>tx_sender = ALICE\<rparr> setup_test
        = Inl ECannotJoinOwnBattle" by simp
  from zero ne have 3: "create_battle (Coin 0) BOB ADMIN \<lparr>tx_sender = ALICE\<rparr> setup_test
        = Inl EInvalidStakeAmount" by simp
  from zero ex have 4: "step (TxCreate ALICE 0 0 BOB ADMIN) setup_test = setup_test"
    by blast
  from ne pos 1 2 3 ex 4 show ?thesis by blast
qed

subsection \<open>Settling a battle\<close>

text \<open>
  Claim C1. On a well-formed ledger, for every ready battle and every winner that is one
  of its two players, a finalize (settle) transaction that succeeds hands the winner one
  coin whose value is exactly the value of player 1's stake plus the value of player 2's
  stake (the \<open>u64\<close> sum does not wrap), changes nobody else's coins, and removes the
  battle from the shared objects, in one step. The only other outcome is an abort, which
  returns no state: no result has part of the funds moved or the battle still there.
\<close>

theorem finalize_pays_both_stakes:
  assumes "wf_world w" and "shared w bid = Some b" and "is_ready b"
    and "winner = player1 b \<or> winner = player2 b"
    and "exec (TxFinalize a bid winner) w = Inr w'"
  shows "\<exists>c2. player2_stake b = Some c2
    \<and> coins w' winner = Coin (coin_value (player1_stake b) + coin_value c2) # coins w winner
    \<and> unat (coin_value (player1_stake b) + coin_value c2)
         = unat (coin_value (player1_stake b)) + unat (coin_value c2)
    \<and> balance w' winner
         = balance w winner + unat (coin_value (player1_stake b)) + unat (coin_value c2)
    \<and> (\<forall>x. x \<noteq> winner \<longrightarrow> coins w' x = coins w x)
    \<and> shared w' bid = None
    \<and> (\<forall>i. i \<noteq> bid \<longrightarrow> shared w' i = shared w i)"
proof -
  from assms(5,2) obtain cap where
    fi: "finalize_battle cap b winner \<lparr>tx_sender = a\<rparr> w = Inr w'"
    by (auto split: list.splits)
  from assms(1,2) have u: "uid b = bid" by (simp add: wf_world_def)
  from finalize_battle_Inr(3) [OF fi] obtain c2 where
    c2: "player2_stake b = Some c2"
    and lt: "unat (coin_value (player1_stake b)) + unat (coin_value c2) < 2 ^ 64"
    and w': "w' = w\<lparr>coins := (coins w)(winner :=
                        Coin (coin_value (player1_stake b) + coin_value c2) # coins w winner),
                      events := events w @ [BattleFinalized (uid b) winner
                        (coin_value (player1_stake b) + coin_value c2)],
                      shared := (shared w)(uid b := None)\<rparr>"
    by blast
  have sum: "unat (coin_value (player1_stake b) + coin_value c2)
         = unat (coin_value (player1_stake b)) + unat (coin_value c2)"
    using lt unat_add_lem [of "coin_value (player1_stake b)" "coin_value c2"] by simp
  show ?thesis
    using c2 sum u by (simp add: w' balance_def)
qed

theorem finalize_pays_both_stakes_witness:
  "wf_world (joined ADMIN)
   \<and> shared (joined ADMIN) 1 = Some
        \<lparr>uid = 1, player1 = ALICE, player2 = BOB, player1_stake = Coin 500,
         player2_stake = Some (Coin 500), stake_amount = 500, is_ready = True,
         admin = ADMIN\<rparr>
   \<and> exec (TxFinalize ADMIN 1 ALICE) (joined ADMIN) = Inr (finalized ADMIN)
   \<and> coins (finalized ADMIN) ALICE = Coin 1000 # coins (joined ADMIN) ALICE
   \<and> balance (finalized ADMIN) ALICE = balance (joined ADMIN) ALICE + 500 + 500
   \<and> shared (finalized ADMIN) 1 = None"
proof -
  let ?b = "\<lparr>uid = 1, player1 = ALICE, player2 = BOB, player1_stake = Coin 500,
         player2_stake = Some (Coin 500), stake_amount = 500, is_ready = True,
         admin = ADMIN\<rparr>"
  have b: "shared (joined ADMIN) 1 = Some ?b"
    by (simp add: joined_eq addresses)
  have ex: "exec (TxFinalize ADMIN 1 ALICE) (joined ADMIN) = Inr (finalized ADMIN)"
    by (simp add: finalized_eq) (simp add: joined_eq primitives addresses finalize_battle_def Let_def)
  have r: "is_ready ?b" and wn: "ALICE = player1 ?b \<or> ALICE = player2 ?b" by simp_all
  from finalize_pays_both_stakes [OF wf_world_joined b r wn ex]
  have "coins (finalized ADMIN) ALICE = Coin 1000 # coins (joined ADMIN) ALICE
   \<and> balance (finalized ADMIN) ALICE = balance (joined ADMIN) ALICE + 500 + 500
   \<and> shared (finalized ADMIN) 1 = None"
    by simp
  with wf_world_joined b ex show ?thesis by blast
qed

text \<open>
  Claim C8. \<open>finalize_battle\<close> on a battle with \<open>is_ready = False\<close> aborts with
  \<open>EBattleNotReady\<close> whatever the winner argument is, and on a ready battle with a winner
  who is neither player it aborts with \<open>EInvalidWinner\<close>. In both cases the transaction
  leaves the ledger, and so every balance, as it was.
\<close>

theorem finalize_rejects_unready_and_outsider:
  "(\<not> is_ready b \<longrightarrow> finalize_battle cap b winner ctx w = Inl EBattleNotReady)
   \<and> (is_ready b \<and> winner \<noteq> player1 b \<and> winner \<noteq> player2 b \<longrightarrow>
        finalize_battle cap b winner ctx w = Inl EInvalidWinner)
   \<and> (shared w bid = Some b
        \<and> (\<not> is_ready b \<or> (winner \<noteq> player1 b \<and> winner \<noteq> player2 b)) \<longrightarrow>
        step (TxFinalize a bid winner) w = w)"
  by (auto simp: finalize_battle_def step_def split: list.splits sum.splits)

theorem finalize_rejects_unready_and_outsider_witness:
  "shared (opened ADMIN) 1 = Some
        \<lparr>uid = 1, player1 = ALICE, player2 = BOB, player1_stake = Coin 500,
         player2_stake = None, stake_amount = 500, is_ready = False, admin = ADMIN\<rparr>
   \<and> exec (TxFinalize ADMIN 1 ALICE) (opened ADMIN) = Inl EBattleNotReady
   \<and> exec (TxFinalize ADMIN 1 CHARLIE) (opened ADMIN) = Inl EBattleNotReady
   \<and> step (TxFinalize ADMIN 1 ALICE) (opened ADMIN) = opened ADMIN
   \<and> shared (joined ADMIN) 1 = Some
        \<lparr>uid = 1, player1 = ALICE, player2 = BOB, player1_stake = Coin 500,
         player2_stake = Some (Coin 500), stake_amount = 500, is_ready = True,
         admin = ADMIN\<rparr>
   \<and> CHARLIE \<noteq> ALICE \<and> CHARLIE \<noteq> BOB
   \<and> exec (TxFinalize ADMIN 1 CHARLIE) (joined ADMIN) = Inl EInvalidWinner
   \<and> step (TxFinalize ADMIN 1 CHARLIE) (joined ADMIN) = joined ADMIN"
proof -
  let ?o = "\<lparr>uid = 1, player1 = ALICE, player2 = BOB, player1_stake = Coin 500,
         player2_stake = None, stake_amount = 500, is_ready = False, admin = ADMIN\<rparr>"
  let ?j = "\<lparr>uid = 1, player1 = ALICE, player2 = BOB, player1_stake = Coin 500,
         player2_stake = Some (Coin 500), stake_amount = 500, is_ready = True,
         admin = ADMIN\<rparr>"
  have o: "shared (opened ADMIN) 1 = Some ?o" by (simp add: opened_eq addresses)
  have j: "shared (joined ADMIN) 1 = Some ?j" by (simp add: joined_eq addresses)
  have co: "caps (opened ADMIN) ADMIN = [AdminCap 0]" by (simp add: opened_eq addresses)
  have cj: "caps (joined ADMIN) ADMIN = [AdminCap 0]" by (simp add: joined_eq addresses)
  have ne: "CHARLIE \<noteq> ALICE" "CHARLIE \<noteq> BOB" by (simp_all add: addresses)
  note t1 = finalize_rejects_unready_and_outsider [where b = ?o and w = "opened ADMIN"
      and bid = 1 and a = ADMIN and cap = "AdminCap 0" and ctx = "\<lparr>tx_sender = ADMIN\<rparr>"]
  note t2 = finalize_rejects_unready_and_outsider [where b = ?j and w = "joined ADMIN"
      and bid = 1 and a = ADMIN and cap = "AdminCap 0" and ctx = "\<lparr>tx_sender = ADMIN\<rparr>"
      and winner = CHARLIE]
  have 1: "exec (TxFinalize ADMIN 1 ALICE) (opened ADMIN) = Inl EBattleNotReady"
    using t1 [where winner = ALICE] o co by simp
  have 2: "exec (TxFinalize ADMIN 1 CHARLIE) (opened ADMIN) = Inl EBattleNotReady"
    using t1 [where winner = CHARLIE] o co by simp
  have 3: "step (TxFinalize ADMIN 1 ALICE) (opened ADMIN) = opened ADMIN"
    using t1 [where winner = ALICE] o by simp
  have 4: "exec (TxFinalize ADMIN 1 CHARLIE) (joined ADMIN) = Inl EInvalidWinner"
    using t2 j cj ne by simp
  have 5: "step (TxFinalize ADMIN 1 CHARLIE) (joined ADMIN) = joined ADMIN"
    using t2 j ne by simp
  from o j ne 1 2 3 4 5 show ?thesis by blast
qed

subsection \<open>Joining a battle\<close>

text \<open>
  Claim C5. After an open transaction of \<open>A\<close> against \<open>B\<close> with a stake of 500 has
  succeeded, the new battle is not ready, and on it: \<open>join_battle\<close> by any sender other
  than \<open>B\<close> aborts with \<open>ENotAuthorized\<close>; by \<open>B\<close> with a coin whose value is not 500 it
  aborts with \<open>EInvalidStakeAmount\<close> (the code the module uses for the spec's
  StakeMismatch); by \<open>B\<close> with a coin of value 500 it succeeds, stores the coin as player
  2's stake and sets \<open>is_ready\<close>. A join transaction that succeeds leaves the battle
  ready in the ledger; one that aborts leaves the whole ledger, and so the battle,
  unchanged.
\<close>

theorem join_after_open_500:
  assumes "exec (TxCreate A ixa 500 B adm) w = Inr w1"
  shows "\<exists>b. shared w1 (next_uid w) = Some b \<and> \<not> is_ready b
    \<and> (\<forall>caller stake w2. caller \<noteq> B \<longrightarrow>
          join_battle b stake \<lparr>tx_sender = caller\<rparr> w2 = Inl ENotAuthorized)
    \<and> (\<forall>stake w2. coin_value stake \<noteq> 500 \<longrightarrow>
          join_battle b stake \<lparr>tx_sender = B\<rparr> w2 = Inl EInvalidStakeAmount)
    \<and> (\<forall>stake w2. coin_value stake = 500 \<longrightarrow>
          (\<exists>w3. join_battle b stake \<lparr>tx_sender = B\<rparr> w2
                   = Inr (b\<lparr>player2_stake := Some stake, is_ready := True\<rparr>, w3)))
    \<and> (\<forall>ix w2. exec (TxJoin B (next_uid w) ix 500) w1 = Inr w2 \<longrightarrow>
          (\<exists>b'. shared w2 (next_uid w) = Some b' \<and> is_ready b'))
    \<and> (\<forall>caller ix amount e. exec (TxJoin caller (next_uid w) ix amount) w1 = Inl e \<longrightarrow>
          step (TxJoin caller (next_uid w) ix amount) w1 = w1
          \<and> shared (step (TxJoin caller (next_uid w) ix amount) w1) (next_uid w) = Some b)"
proof -
  from assms obtain stake0 w0 where
    sp: "split_from_sender A ixa 500 w = Inr (stake0, w0)"
    and cr: "create_battle stake0 B adm \<lparr>tx_sender = A\<rparr> w0 = Inr w1"
    by (auto split: sum.splits prod.splits)
  note s = split_from_sender_Inr [OF sp]
  note c = create_battle_Inr [OF cr]
  let ?b = "\<lparr>uid = next_uid w, player1 = A, player2 = B, player1_stake = stake0,
             player2_stake = None, stake_amount = 500, is_ready = False, admin = adm\<rparr>"
  have b: "shared w1 (next_uid w) = Some ?b"
    by (simp add: c(3) s(1,5))
  have 1: "\<forall>caller stake w2. caller \<noteq> B \<longrightarrow>
          join_battle ?b stake \<lparr>tx_sender = caller\<rparr> w2 = Inl ENotAuthorized"
    by (simp add: join_battle_def)
  have 2: "\<forall>stake w2. coin_value stake \<noteq> 500 \<longrightarrow>
          join_battle ?b stake \<lparr>tx_sender = B\<rparr> w2 = Inl EInvalidStakeAmount"
    by (simp add: join_battle_def)
  have 3: "\<forall>stake w2. coin_value stake = 500 \<longrightarrow>
          (\<exists>w3. join_battle ?b stake \<lparr>tx_sender = B\<rparr> w2
                   = Inr (?b\<lparr>player2_stake := Some stake, is_ready := True\<rparr>, w3))"
    by (simp add: join_battle_def option_fill_def Let_def)
  have 4: "\<forall>ix w2. exec (TxJoin B (next_uid w) ix 500) w1 = Inr w2 \<longrightarrow>
          (\<exists>b'. shared w2 (next_uid w) = Some b' \<and> is_ready b')"
    using b by (auto split: sum.splits prod.splits dest!: join_battle_Inr(4))
  have 5: "\<forall>caller ix amount e. exec (TxJoin caller (next_uid w) ix amount) w1 = Inl e \<longrightarrow>
          step (TxJoin caller (next_uid w) ix amount) w1 = w1
          \<and> shared (step (TxJoin caller (next_uid w) ix amount) w1) (next_uid w) = Some ?b"
    using b by (simp add: step_def)
  have 0: "\<not> is_ready ?b" by simp
  from b 0 1 2 3 4 5 show ?thesis by blast
qed


theorem join_after_open_500_witness:
  "exec (TxCreate ALICE 0 500 BOB ADMIN) setup_test = Inr (opened ADMIN)
   \<and> (\<exists>b. shared (opened ADMIN) 1 = Some b \<and> \<not> is_ready b
        \<and> join_battle b (Coin 500) \<lparr>tx_sender = CHARLIE\<rparr> (opened ADMIN) = Inl ENotAuthorized
        \<and> join_battle b (Coin 400) \<lparr>tx_sender = BOB\<rparr> (opened ADMIN)
             = Inl EInvalidStakeAmount
        \<and> (\<exists>w3. join_battle b (Coin 500) \<lparr>tx_sender = BOB\<rparr> (opened ADMIN)
             = Inr (b\<lparr>player2_stake := Some (Coin 500), is_ready := True\<rparr>, w3)))
   \<and> exec (TxJoin BOB 1 0 500) (opened ADMIN) = Inr (joined ADMIN)
   \<and> (\<exists>b'. shared (joined ADMIN) 1 = Some b' \<and> is_ready b')
   \<and> exec (TxJoin BOB 1 0 400) (opened ADMIN) = Inl EInvalidStakeAmount
   \<and> step (TxJoin BOB 1 0 400) (opened ADMIN) = opened ADMIN"
proof -
  have ex: "exec (TxCreate ALICE 0 500 BOB ADMIN) setup_test = Inr (opened ADMIN)"
    by (simp add: opened_eq) (simp add: setup_test_eq primitives addresses create_battle_def Let_def)
  have n: "next_uid setup_test = 1" by (simp add: setup_test_eq)
  have ne: "CHARLIE \<noteq> BOB" by (simp add: addresses)
  have v: "coin_value (Coin 400) \<noteq> 500" "coin_value (Coin 500) = 500" by simp_all
  have j: "exec (TxJoin BOB 1 0 500) (opened ADMIN) = Inr (joined ADMIN)"
    by (simp add: joined_eq) (simp add: opened_eq primitives addresses join_battle_def Let_def)
  have f: "exec (TxJoin BOB 1 0 400) (opened ADMIN) = Inl EInvalidStakeAmount"
    by (simp add: opened_eq primitives addresses join_battle_def Let_def)
  from join_after_open_500 [OF ex] n obtain b where
    b: "shared (opened ADMIN) 1 = Some b" "\<not> is_ready b"
    and 1: "\<And>caller stake w2. caller \<noteq> BOB \<Longrightarrow>
          join_battle b stake \<lparr>tx_sender = caller\<rparr> w2 = Inl ENotAuthorized"
    and 2: "\<And>stake w2. coin_value stake \<noteq> 500 \<Longrightarrow>
          join_battle b stake \<lparr>tx_sender = BOB\<rparr> w2 = Inl EInvalidStakeAmount"
    and 3: "\<And>stake w2. coin_value stake = 500 \<Longrightarrow>
          (\<exists>w3. join_battle b stake \<lparr>tx_sender = BOB\<rparr> w2
                   = Inr (b\<lparr>player2_stake := Some stake, is_ready := True\<rparr>, w3))"
    and 4: "\<And>ix w2. exec (TxJoin BOB 1 ix 500) (opened ADMIN) = Inr w2 \<Longrightarrow>
          (\<exists>b'. shared w2 1 = Some b' \<and> is_ready b')"
    and 5: "\<And>caller ix amount e. exec (TxJoin caller 1 ix amount) (opened ADMIN) = Inl e \<Longrightarrow>
          step (TxJoin caller 1 ix amount) (opened ADMIN) = opened ADMIN"
    by auto
  from ex b 1 [OF ne] 2 [OF v(1)] 3 [OF v(2)] j 4 [OF j] f 5 [OF f]
  show ?thesis by blast
qed

text \<open>
  Claim C6, as stated, fails: \<open>join_battle\<close> checks the sender before it checks whether
  player 2 has already staked. After \<open>BOB\<close> has joined the battle of the test scenario, a
  second join by \<open>CHARLIE\<close> aborts with \<open>ENotAuthorized\<close>, not with
  \<open>EPlayer2AlreadyJoined\<close>.
\<close>

theorem second_join_by_outsider_counterexample:
  "exec (TxJoin BOB 1 0 500) (opened ADMIN) = Inr (joined ADMIN)
   \<and> shared (joined ADMIN) 1 = Some
        \<lparr>uid = 1, player1 = ALICE, player2 = BOB, player1_stake = Coin 500,
         player2_stake = Some (Coin 500), stake_amount = 500, is_ready = True,
         admin = ADMIN\<rparr>
   \<and> join_battle
        \<lparr>uid = 1, player1 = ALICE, player2 = BOB, player1_stake = Coin 500,
         player2_stake = Some (Coin 500), stake_amount = 500, is_ready = True,
         admin = ADMIN\<rparr>
        (Coin 500) \<lparr>tx_sender = CHARLIE\<rparr> (joined ADMIN) = Inl ENotAuthorized
   \<and> join_battle
        \<lparr>uid = 1, player1 = ALICE, player2 = BOB, player1_stake = Coin 500,
         player2_stake = Some (Coin 500), stake_amount = 500, is_ready = True,
         admin = ADMIN\<rparr>
        (Coin 500) \<lparr>tx_sender = CHARLIE\<rparr> (joined ADMIN) \<noteq> Inl EPlayer2AlreadyJoined"
proof -
  have j: "exec (TxJoin BOB 1 0 500) (opened ADMIN) = Inr (joined ADMIN)"
    by (simp add: joined_eq) (simp add: opened_eq primitives addresses join_battle_def Let_def)
  have b: "shared (joined ADMIN) 1 = Some
        \<lparr>uid = 1, player1 = ALICE, player2 = BOB, player1_stake = Coin 500,
         player2_stake = Some (Coin 500), stake_amount = 500, is_ready = True,
         admin = ADMIN\<rparr>"
    by (simp add: joined_eq addresses)
  have c: "join_battle
        \<lparr>uid = 1, player1 = ALICE, player2 = BOB, player1_stake = Coin 500,
         player2_stake = Some (Coin 500), stake_amount = 500, is_ready = True,
         admin = ADMIN\<rparr>
        (Coin 500) \<lparr>tx_sender = CHARLIE\<rparr> (joined ADMIN) = Inl ENotAuthorized"
    by (simp add: join_battle_def addresses)
  from j b c show ?thesis by simp
qed

text \<open>
  Claim C6, amended. On a battle that a \<open>join_battle\<close> call has returned, every further
  \<open>join_battle\<close> call aborts, whatever the sender and the stake: with
  \<open>EPlayer2AlreadyJoined\<close> when the sender is player 2, and with \<open>ENotAuthorized\<close> when
  the sender is anyone else. It never succeeds.
\<close>

theorem second_join_always_aborts:
  assumes "join_battle b0 stake0 ctx0 w0 = Inr (b, w1)"
  shows "(tx_sender ctx = player2 b \<longrightarrow>
            join_battle b stake ctx w = Inl EPlayer2AlreadyJoined)
    \<and> (tx_sender ctx \<noteq> player2 b \<longrightarrow> join_battle b stake ctx w = Inl ENotAuthorized)
    \<and> (\<forall>r. join_battle b stake ctx w \<noteq> Inr r)"
proof -
  from join_battle_Inr(4) [OF assms] have "player2_stake b \<noteq> None" by simp
  then show ?thesis by (auto simp: join_battle_def Let_def split: if_splits)
qed

theorem second_join_always_aborts_witness:
  "join_battle
        \<lparr>uid = 1, player1 = ALICE, player2 = BOB, player1_stake = Coin 500,
         player2_stake = None, stake_amount = 500, is_ready = False, admin = ADMIN\<rparr>
        (Coin 500) \<lparr>tx_sender = BOB\<rparr> (opened ADMIN)
     = Inr (\<lparr>uid = 1, player1 = ALICE, player2 = BOB, player1_stake = Coin 500,
         player2_stake = Some (Coin 500), stake_amount = 500, is_ready = True,
         admin = ADMIN\<rparr>, event_emit (BattleJoined 1 BOB) (opened ADMIN))
   \<and> join_battle
        \<lparr>uid = 1, player1 = ALICE, player2 = BOB, player1_stake = Coin 500,
         player2_stake = Some (Coin 500), stake_amount = 500, is_ready = True,
         admin = ADMIN\<rparr>
        (Coin 500) \<lparr>tx_sender = BOB\<rparr> (joined ADMIN) = Inl EPlayer2AlreadyJoined
   \<and> join_battle
        \<lparr>uid = 1, player1 = ALICE, player2 = BOB, player1_stake = Coin 500,
         player2_stake = Some (Coin 500), stake_amount = 500, is_ready = True,
         admin = ADMIN\<rparr>
        (Coin 500) \<lparr>tx_sender = ALICE\<rparr> (joined ADMIN) = Inl ENotAuthorized"
proof -
  let ?o = "\<lparr>uid = 1, player1 = ALICE, player2 = BOB, player1_stake = Coin 500,
         player2_stake = None, stake_amount = 500, is_ready = False, admin = ADMIN\<rparr>"
  let ?j = "\<lparr>uid = 1, player1 = ALICE, player2 = BOB, player1_stake = Coin 500,
         player2_stake = Some (Coin 500), stake_amount = 500, is_ready = True,
         admin = ADMIN\<rparr>"
  have j: "join_battle ?o (Coin 500) \<lparr>tx_sender = BOB\<rparr> (opened ADMIN)
     = Inr (?j, event_emit (BattleJoined 1 BOB) (opened ADMIN))"
    by (simp add: join_battle_def option_fill_def Let_def)
  have ne: "ALICE \<noteq> BOB" by (simp add: addresses)
  from second_join_always_aborts [OF j, where ctx = "\<lparr>tx_sender = BOB\<rparr>"
      and stake = "Coin 500" and w = "joined ADMIN"]
  have 1: "join_battle ?j (Coin 500) \<lparr>tx_sender = BOB\<rparr> (joined ADMIN)
             = Inl EPlayer2AlreadyJoined"
    by simp
  from second_join_always_aborts [OF j, where ctx = "\<lparr>tx_sender = ALICE\<rparr>"
      and stake = "Coin 500" and w = "joined ADMIN"] ne
  have 2: "join_battle ?j (Coin 500) \<lparr>tx_sender = ALICE\<rparr> (joined ADMIN)
             = Inl ENotAuthorized"
    by simp
  from j 1 2 show ?thesis by blast
qed

subsection \<open>Cancelling a battle\<close>

text \<open>
  Claim C7. On a well-formed ledger, a cancel transaction sent by player 1 on a battle
  with \<open>is_ready = False\<close> succeeds: it hands player 1's stake coin, whose value is the
  recorded \<open>stake_amount\<close>, back to player 1, changes nobody else's coins and removes the
  battle from the shared objects. \<open>cancel_battle\<close> on a ready battle aborts with
  \<open>EBattleAlreadyFull\<close> (the code the module uses here for the spec's AlreadyJoined)
  whoever the sender is, and on a battle that is not ready it aborts with
  \<open>ENotAuthorized\<close> when the sender is neither player 1 nor the stored admin.
\<close>

theorem cancel_battle_cases:
  "(wf_world w \<and> shared w bid = Some b \<and> \<not> is_ready b \<longrightarrow>
      (\<exists>w'. exec (TxCancel (player1 b) bid) w = Inr w'
         \<and> coins w' (player1 b) = player1_stake b # coins w (player1 b)
         \<and> coin_value (player1_stake b) = stake_amount b
         \<and> balance w' (player1 b) = balance w (player1 b) + unat (stake_amount b)
         \<and> (\<forall>x. x \<noteq> player1 b \<longrightarrow> coins w' x = coins w x)
         \<and> shared w' bid = None
         \<and> (\<forall>i. i \<noteq> bid \<longrightarrow> shared w' i = shared w i)))
   \<and> (is_ready b \<longrightarrow> cancel_battle b ctx w = Inl EBattleAlreadyFull)
   \<and> (\<not> is_ready b \<and> tx_sender ctx \<noteq> player1 b \<and> tx_sender ctx \<noteq> admin b \<longrightarrow>
        cancel_battle b ctx w = Inl ENotAuthorized)"
proof -
  have 1: "\<exists>w'. exec (TxCancel (player1 b) bid) w = Inr w'
         \<and> coins w' (player1 b) = player1_stake b # coins w (player1 b)
         \<and> coin_value (player1_stake b) = stake_amount b
         \<and> balance w' (player1 b) = balance w (player1 b) + unat (stake_amount b)
         \<and> (\<forall>x. x \<noteq> player1 b \<longrightarrow> coins w' x = coins w x)
         \<and> shared w' bid = None
         \<and> (\<forall>i. i \<noteq> bid \<longrightarrow> shared w' i = shared w i)"
    if wf: "wf_world w" and b: "shared w bid = Some b" and nr: "\<not> is_ready b"
  proof -
    from wf b have u: "uid b = bid" and inv: "battle_inv b"
      by (auto simp: wf_world_def)
    from inv nr have p2: "player2_stake b = None"
      and v: "coin_value (player1_stake b) = stake_amount b"
      by (auto simp: battle_inv_def)
    show ?thesis
      using b nr p2 v u
      by (simp add: cancel_battle_def Let_def option_destroy_none_def public_transfer_def
          event_emit_def object_delete_def balance_def)
  qed
  have 2: "is_ready b \<longrightarrow> cancel_battle b ctx w = Inl EBattleAlreadyFull"
    by (simp add: cancel_battle_def)
  have 3: "\<not> is_ready b \<and> tx_sender ctx \<noteq> player1 b \<and> tx_sender ctx \<noteq> admin b \<longrightarrow>
        cancel_battle b ctx w = Inl ENotAuthorized"
    by (simp add: cancel_battle_def)
  from 1 2 3 show ?thesis by blast
qed


theorem cancel_battle_cases_witness:
  "wf_world (opened ADMIN)
   \<and> shared (opened ADMIN) 1 = Some
        \<lparr>uid = 1, player1 = ALICE, player2 = BOB, player1_stake = Coin 500,
         player2_stake = None, stake_amount = 500, is_ready = False, admin = ADMIN\<rparr>
   \<and> (\<exists>w'. exec (TxCancel ALICE 1) (opened ADMIN) = Inr w'
         \<and> coins w' ALICE = [Coin 500, Coin 1500] \<and> balance w' ALICE = 2000
         \<and> shared w' 1 = None)
   \<and> cancel_battle
        \<lparr>uid = 1, player1 = ALICE, player2 = BOB, player1_stake = Coin 500,
         player2_stake = Some (Coin 500), stake_amount = 500, is_ready = True,
         admin = ADMIN\<rparr> \<lparr>tx_sender = ALICE\<rparr> (joined ADMIN) = Inl EBattleAlreadyFull
   \<and> cancel_battle
        \<lparr>uid = 1, player1 = ALICE, player2 = BOB, player1_stake = Coin 500,
         player2_stake = None, stake_amount = 500, is_ready = False, admin = ADMIN\<rparr>
        \<lparr>tx_sender = CHARLIE\<rparr> (opened ADMIN) = Inl ENotAuthorized"
proof -
  let ?o = "\<lparr>uid = 1, player1 = ALICE, player2 = BOB, player1_stake = Coin 500,
         player2_stake = None, stake_amount = 500, is_ready = False, admin = ADMIN\<rparr>"
  let ?j = "\<lparr>uid = 1, player1 = ALICE, player2 = BOB, player1_stake = Coin 500,
         player2_stake = Some (Coin 500), stake_amount = 500, is_ready = True,
         admin = ADMIN\<rparr>"
  have o: "shared (opened ADMIN) 1 = Some ?o" by (simp add: opened_eq addresses)
  have c: "coins (opened ADMIN) ALICE = [Coin 1500]" by (simp add: opened_eq addresses)
  have bal: "balance (opened ADMIN) ALICE = 1500" by (simp add: balance_def c)
  have ne: "CHARLIE \<noteq> ALICE" "CHARLIE \<noteq> ADMIN" by (simp_all add: addresses)
  from cancel_battle_cases [where w = "opened ADMIN" and bid = 1 and b = ?o
      and ctx = "\<lparr>tx_sender = ALICE\<rparr>"]
    wf_world_opened o c bal
  have 1: "\<exists>w'. exec (TxCancel ALICE 1) (opened ADMIN) = Inr w'
         \<and> coins w' ALICE = [Coin 500, Coin 1500] \<and> balance w' ALICE = 2000
         \<and> shared w' 1 = None"
    by auto
  from cancel_battle_cases [where b = ?j and ctx = "\<lparr>tx_sender = ALICE\<rparr>"
      and w = "joined ADMIN"]
  have 2: "cancel_battle ?j \<lparr>tx_sender = ALICE\<rparr> (joined ADMIN) = Inl EBattleAlreadyFull"
    by simp
  from cancel_battle_cases [where b = ?o and ctx = "\<lparr>tx_sender = CHARLIE\<rparr>"
      and w = "opened ADMIN"] ne
  have 3: "cancel_battle ?o \<lparr>tx_sender = CHARLIE\<rparr> (opened ADMIN) = Inl ENotAuthorized"
    by simp
  from wf_world_opened o 1 2 3 show ?thesis by blast
qed

subsection \<open>The invariant of a battle\<close>

text \<open>
  Claim C2. Start from a ledger with no battle and run any sequence of transactions
  (open and join, and finalize and cancel as well; aborted ones change nothing). Every
  battle then in the ledger has \<open>is_ready\<close> true if and only if player 2's stake is
  present; a present stake of player 2 has the recorded \<open>stake_amount\<close> as its value,
  and so has player 1's stake; \<open>stake_amount\<close> is positive; and one more transaction
  of any kind leaves \<open>stake_amount\<close> and player 1's stake of a battle that remains as
  they were set at creation.
\<close>

theorem reachable_battle_invariant:
  assumes "shared w0 = Map.empty" and "shared (run ts w0) i = Some b"
  shows "(is_ready b \<longleftrightarrow> player2_stake b \<noteq> None)
    \<and> (\<forall>c. player2_stake b = Some c \<longrightarrow> coin_value c = stake_amount b)
    \<and> coin_value (player1_stake b) = stake_amount b
    \<and> 0 < stake_amount b
    \<and> (\<forall>t b'. shared (step t (run ts w0)) i = Some b' \<longrightarrow>
          stake_amount b' = stake_amount b \<and> player1_stake b' = player1_stake b)"
proof -
  have wf: "wf_world (run ts w0)"
    by (rule wf_world_run [OF wf_world_no_battles [OF assms(1)]])
  with assms(2) have inv: "battle_inv b" by (auto simp: wf_world_def)
  have keep: "stake_amount b' = stake_amount b \<and> player1_stake b' = player1_stake b"
    if "shared (step t (run ts w0)) i = Some b'" for t b'
  proof (cases "exec t (run ts w0)")
    case (Inl e)
    with that assms(2) show ?thesis by (simp add: step_def)
  next
    case (Inr w')
    with that have "shared w' i = Some b'" by (simp add: step_def)
    from exec_keeps_stake [OF wf assms(2) Inr this] show ?thesis .
  qed
  from inv keep show ?thesis by (simp add: battle_inv_def)
qed

theorem reachable_battle_invariant_witness:
  "shared setup_test = Map.empty
   \<and> shared (run [TxCreate ALICE 0 500 BOB ADMIN, TxJoin BOB 1 0 500] setup_test) 1 = Some
        \<lparr>uid = 1, player1 = ALICE, player2 = BOB, player1_stake = Coin 500,
         player2_stake = Some (Coin 500), stake_amount = 500, is_ready = True,
         admin = ADMIN\<rparr>
   \<and> shared (run [TxCreate ALICE 0 500 BOB ADMIN] setup_test) 1 = Some
        \<lparr>uid = 1, player1 = ALICE, player2 = BOB, player1_stake = Coin 500,
         player2_stake = None, stake_amount = 500, is_ready = False, admin = ADMIN\<rparr>
   \<and> shared (step (TxJoin BOB 1 0 500) (run [TxCreate ALICE 0 500 BOB ADMIN] setup_test)) 1
       = Some
        \<lparr>uid = 1, player1 = ALICE, player2 = BOB, player1_stake = Coin 500,
         player2_stake = Some (Coin 500), stake_amount = 500, is_ready = True,
         admin = ADMIN\<rparr>
   \<and> (\<nexists>t b'. shared (step t (run [TxCreate ALICE 0 500 BOB ADMIN] setup_test)) 1 = Some b'
         \<and> (stake_amount b' \<noteq> 500 \<or> player1_stake b' \<noteq> Coin 500))"
proof -
  let ?o = "\<lparr>uid = 1, player1 = ALICE, player2 = BOB, player1_stake = Coin 500,
         player2_stake = None, stake_amount = 500, is_ready = False, admin = ADMIN\<rparr>"
  let ?j = "\<lparr>uid = 1, player1 = ALICE, player2 = BOB, player1_stake = Coin 500,
         player2_stake = Some (Coin 500), stake_amount = 500, is_ready = True,
         admin = ADMIN\<rparr>"
  have e: "shared setup_test = Map.empty" by (simp add: setup_test_eq)
  have r1: "run [TxCreate ALICE 0 500 BOB ADMIN] setup_test = opened ADMIN"
    by (simp add: run_def opened_def)
  have o: "shared (run [TxCreate ALICE 0 500 BOB ADMIN] setup_test) 1 = Some ?o"
    unfolding r1 by (simp add: opened_eq addresses)
  have j: "shared (run [TxCreate ALICE 0 500 BOB ADMIN, TxJoin BOB 1 0 500] setup_test) 1
             = Some ?j"
    unfolding run_setup_test_joined by (simp add: joined_eq addresses)
  have s: "shared (step (TxJoin BOB 1 0 500)
             (run [TxCreate ALICE 0 500 BOB ADMIN] setup_test)) 1 = Some ?j"
    unfolding r1 joined_def [symmetric] by (simp add: joined_eq addresses)
  from reachable_battle_invariant [OF e o]
  have k: "\<nexists>t b'. shared (step t (run [TxCreate ALICE 0 500 BOB ADMIN] setup_test)) 1 = Some b'
         \<and> (stake_amount b' \<noteq> 500 \<or> player1_stake b' \<noteq> Coin 500)"
    by auto
  from e o j s k show ?thesis by blast
qed


subsection \<open>Who may settle\<close>

text \<open>
  Claim C3, as stated, fails: \<open>finalize_battle\<close> drops the battle's \<open>admin\<close> field
  unread and is guarded by the \<open>AdminCap\<close> object alone. In the test scenario with
  \<open>CHARLIE\<close> recorded as the battle's admin, \<open>ADMIN\<close>, who owns the \<open>AdminCap\<close> and is
  not \<open>CHARLIE\<close>, settles the battle.
\<close>

theorem settle_by_other_than_stored_admin_counterexample:
  "shared (joined CHARLIE) 1 = Some
        \<lparr>uid = 1, player1 = ALICE, player2 = BOB, player1_stake = Coin 500,
         player2_stake = Some (Coin 500), stake_amount = 500, is_ready = True,
         admin = CHARLIE\<rparr>
   \<and> ADMIN \<noteq> CHARLIE
   \<and> exec (TxFinalize ADMIN 1 ALICE) (joined CHARLIE) = Inr (finalized CHARLIE)
   \<and> shared (finalized CHARLIE) 1 = None
   \<and> coins (finalized CHARLIE) ALICE = [Coin 1000, Coin 1500]"
proof -
  have b: "shared (joined CHARLIE) 1 = Some
        \<lparr>uid = 1, player1 = ALICE, player2 = BOB, player1_stake = Coin 500,
         player2_stake = Some (Coin 500), stake_amount = 500, is_ready = True,
         admin = CHARLIE\<rparr>"
    by (simp add: joined_eq addresses)
  have ne: "ADMIN \<noteq> CHARLIE" by (simp add: addresses)
  have ex: "exec (TxFinalize ADMIN 1 ALICE) (joined CHARLIE) = Inr (finalized CHARLIE)"
    by (simp add: finalized_eq)
      (simp add: joined_eq primitives addresses finalize_battle_def Let_def)
  have f: "shared (finalized CHARLIE) 1 = None"
    "coins (finalized CHARLIE) ALICE = [Coin 1000, Coin 1500]"
    by (simp_all add: finalized_eq addresses)
  from b ne ex f show ?thesis by blast
qed

text \<open>
  Claim C3, amended. A finalize (settle) transaction succeeds exactly when its sender
  owns an \<open>AdminCap\<close> and the battle is ready, the winner is one of its two players and
  the two stakes add up within \<open>u64\<close>. A sender that owns no \<open>AdminCap\<close> cannot settle,
  even when it is the address recorded as the battle's admin, and the recorded admin
  address has no influence on \<open>finalize_battle\<close>.
\<close>

theorem settle_needs_admin_cap:
  "((\<exists>w'. exec (TxFinalize a bid winner) w = Inr w') \<longleftrightarrow>
      caps w a \<noteq> []
      \<and> (\<exists>b c2. shared w bid = Some b \<and> is_ready b
            \<and> (winner = player1 b \<or> winner = player2 b) \<and> player2_stake b = Some c2
            \<and> unat (coin_value (player1_stake b)) + unat (coin_value c2) < 2 ^ 64))
   \<and> (caps w a = [] \<longrightarrow> exec (TxFinalize a bid winner) w = Inl ObjectNotFound)
   \<and> finalize_battle cap (b0\<lparr>admin := x\<rparr>) winner ctx w
        = finalize_battle cap b0 winner ctx w"
proof -
  have 1: "caps w a \<noteq> []
      \<and> (\<exists>b c2. shared w bid = Some b \<and> is_ready b
            \<and> (winner = player1 b \<or> winner = player2 b) \<and> player2_stake b = Some c2
            \<and> unat (coin_value (player1_stake b)) + unat (coin_value c2) < 2 ^ 64)"
    if "exec (TxFinalize a bid winner) w = Inr w'" for w'
    using exec_finalize_Inr [OF that] by blast
  have 2: "\<exists>w'. exec (TxFinalize a bid winner) w = Inr w'"
    if "caps w a \<noteq> []" and "shared w bid = Some b" and "is_ready b"
      and "winner = player1 b \<or> winner = player2 b" and "player2_stake b = Some c2"
      and "unat (coin_value (player1_stake b)) + unat (coin_value c2) < 2 ^ 64"
    for b c2
    using that
    by (auto simp: finalize_battle_def option_destroy_some_def coin_join_def Let_def
        split: list.splits)
  have 3: "caps w a = [] \<longrightarrow> exec (TxFinalize a bid winner) w = Inl ObjectNotFound"
    by simp
  have 4: "finalize_battle cap (b0\<lparr>admin := x\<rparr>) winner ctx w
        = finalize_battle cap b0 winner ctx w"
    by (simp add: finalize_battle_def split: sum.splits)
  from 1 2 3 4 show ?thesis by blast
qed

theorem settle_needs_admin_cap_witness:
  "caps (joined CHARLIE) ADMIN = [AdminCap 0]
   \<and> (\<exists>w'. exec (TxFinalize ADMIN 1 ALICE) (joined CHARLIE) = Inr w')
   \<and> caps (joined CHARLIE) CHARLIE = []
   \<and> exec (TxFinalize CHARLIE 1 ALICE) (joined CHARLIE) = Inl ObjectNotFound"
proof -
  let ?j = "\<lparr>uid = 1, player1 = ALICE, player2 = BOB, player1_stake = Coin 500,
         player2_stake = Some (Coin 500), stake_amount = 500, is_ready = True,
         admin = CHARLIE\<rparr>"
  have b: "shared (joined CHARLIE) 1 = Some ?j" by (simp add: joined_eq addresses)
  have c: "caps (joined CHARLIE) ADMIN = [AdminCap 0]" "caps (joined CHARLIE) CHARLIE = []"
    by (simp_all add: joined_eq addresses)
  have r: "is_ready ?j \<and> (ALICE = player1 ?j \<or> ALICE = player2 ?j)
     \<and> player2_stake ?j = Some (Coin 500)
     \<and> unat (coin_value (player1_stake ?j)) + unat (coin_value (Coin 500)) < 2 ^ 64"
    by simp
  have c': "caps (joined CHARLIE) ADMIN \<noteq> []" by (simp add: c(1))
  from b r have rhs: "\<exists>b c2. shared (joined CHARLIE) 1 = Some b \<and> is_ready b
            \<and> (ALICE = player1 b \<or> ALICE = player2 b) \<and> player2_stake b = Some c2
            \<and> unat (coin_value (player1_stake b)) + unat (coin_value c2) < 2 ^ 64"
    by blast
  have 1: "\<exists>w'. exec (TxFinalize ADMIN 1 ALICE) (joined CHARLIE) = Inr w'"
    using settle_needs_admin_cap [where a = ADMIN and bid = 1 and winner = ALICE
        and w = "joined CHARLIE"] c' rhs
    by blast
  have 2: "exec (TxFinalize CHARLIE 1 ALICE) (joined CHARLIE) = Inl ObjectNotFound"
    using settle_needs_admin_cap [where a = CHARLIE and bid = 1 and winner = ALICE
        and w = "joined CHARLIE"] c(2)
    by blast
  from c 1 2 show ?thesis by blast
qed

subsection \<open>End to end\<close>

text \<open>
  Claim C9, as stated, fails. In the test scenario \<open>ALICE\<close> and \<open>BOB\<close> each hold 2000
  before the match; \<open>ALICE\<close> opens with 500 split off her own coin, \<open>BOB\<close> joins with
  500 and \<open>ADMIN\<close> settles for \<open>ALICE\<close>. All three transactions succeed, and \<open>ALICE\<close> ends
  with 2500 (the test's own comment computes 2000 - 500 + 1000 = 2500): 500 more than
  before the match, not 1000 more.
\<close>

theorem end_to_end_alice_gains_1000_counterexample:
  "exec (TxCreate ALICE 0 500 BOB ADMIN) setup_test = Inr (opened ADMIN)
   \<and> exec (TxJoin BOB 1 0 500) (opened ADMIN) = Inr (joined ADMIN)
   \<and> exec (TxFinalize ADMIN 1 ALICE) (joined ADMIN) = Inr (finalized ADMIN)
   \<and> balance setup_test ALICE = 2000
   \<and> balance (finalized ADMIN) ALICE = 2500
   \<and> balance (finalized ADMIN) ALICE \<noteq> balance setup_test ALICE + 1000"
proof -
  have c: "exec (TxCreate ALICE 0 500 BOB ADMIN) setup_test = Inr (opened ADMIN)"
    by (simp add: opened_eq)
      (simp add: setup_test_eq primitives addresses create_battle_def Let_def)
  have j: "exec (TxJoin BOB 1 0 500) (opened ADMIN) = Inr (joined ADMIN)"
    by (simp add: joined_eq) (simp add: opened_eq primitives addresses join_battle_def Let_def)
  have f: "exec (TxFinalize ADMIN 1 ALICE) (joined ADMIN) = Inr (finalized ADMIN)"
    by (simp add: finalized_eq)
      (simp add: joined_eq primitives addresses finalize_battle_def Let_def)
  have b0: "balance setup_test ALICE = 2000"
    by (simp add: balance_def setup_test_eq addresses)
  have b3: "balance (finalized ADMIN) ALICE = 2500"
    by (simp add: balance_def finalized_eq addresses)
  have ne: "balance (finalized ADMIN) ALICE \<noteq> balance setup_test ALICE + 1000"
    by (simp add: b0 b3)
  from c j f b0 b3 ne show ?thesis by blast
qed

text \<open>
  Claim C9, amended. From any ledger, when the open transaction of \<open>A\<close> against \<open>B\<close>
  with 500 split off a coin of \<open>A\<close>, the join transaction of \<open>B\<close> with 500 split off a
  coin of \<open>B\<close>, and the finalize transaction naming \<open>A\<close> as winner all succeed, the
  balance of \<open>A\<close> ends exactly 500 above its balance before the match (1000 above its
  balance after the open transaction, when its stake was already in custody), and the
  balance of \<open>B\<close> ends exactly 500 below its balance before the match.
\<close>

theorem end_to_end_balances:
  assumes "exec (TxCreate A ixa 500 B adm) w = Inr w1"
    and "exec (TxJoin B (next_uid w) ixb 500) w1 = Inr w2"
    and "exec (TxFinalize arbiter (next_uid w) A) w2 = Inr w3"
  shows "balance w3 A = balance w A + 500
    \<and> balance w3 B + 500 = balance w B
    \<and> balance w1 A + 500 = balance w A
    \<and> balance w3 A = balance w1 A + 1000"
proof -
  let ?n = "next_uid w"
  let ?b0 = "\<lparr>uid = ?n, player1 = A, player2 = B, player1_stake = Coin 500,
            player2_stake = None, stake_amount = 500, is_ready = False, admin = adm\<rparr>"
  note c = exec_create_Inr [OF assms(1)]
  note j = exec_join_Inr [OF assms(2)]
  have u: "unat (500 :: u64) = 500" by simp
  have s1: "shared w1 ?n = Some ?b0" by (simp add: c(5))
  with j(1) have s2: "shared w2 ?n
      = Some (?b0\<lparr>player2_stake := Some (Coin 500), is_ready := True\<rparr>)"
    by auto
  from exec_finalize_Inr [OF assms(3)] s2
  have c3: "coins w3 = (coins w2)(A := Coin 1000 # coins w2 A)"
    by auto
  have a1: "balance w1 A + 500 = balance w A" using c(3) u by simp
  have a2: "balance w2 A = balance w1 A"
    using j(3) [of A] c(1) by (intro balance_cong) simp
  have a3: "balance w3 A = 1000 + balance w2 A"
    by (simp add: balance_def c3)
  have b1: "balance w1 B = balance w B"
    using c(4) [of B] c(1) by (intro balance_cong) simp
  have b2: "balance w2 B + 500 = balance w1 B" using j(2) u by simp
  have b3: "balance w3 B = balance w2 B"
    using c(1) by (simp add: balance_def c3)
  from a1 a2 a3 b1 b2 b3 show ?thesis by simp
qed

theorem end_to_end_balances_witness:
  "exec (TxCreate ALICE 0 500 BOB ADMIN) setup_test = Inr (opened ADMIN)
   \<and> exec (TxJoin BOB (next_uid setup_test) 0 500) (opened ADMIN) = Inr (joined ADMIN)
   \<and> exec (TxFinalize ADMIN (next_uid setup_test) ALICE) (joined ADMIN)
        = Inr (finalized ADMIN)
   \<and> balance (finalized ADMIN) ALICE = balance setup_test ALICE + 500
   \<and> balance (finalized ADMIN) BOB + 500 = balance setup_test BOB
   \<and> balance (finalized ADMIN) ALICE = balance (opened ADMIN) ALICE + 1000"
proof -
  have n: "next_uid setup_test = 1" by (simp add: setup_test_eq)
  have c: "exec (TxCreate ALICE 0 500 BOB ADMIN) setup_test = Inr (opened ADMIN)"
    by (simp add: opened_eq)
      (simp add: setup_test_eq primitives addresses create_battle_def Let_def)
  have j: "exec (TxJoin BOB (next_uid setup_test) 0 500) (opened ADMIN) = Inr (joined ADMIN)"
    unfolding n
    by (simp add: joined_eq) (simp add: opened_eq primitives addresses join_battle_def Let_def)
  have f: "exec (TxFinalize ADMIN (next_uid setup_test) ALICE) (joined ADMIN)
             = Inr (finalized ADMIN)"
    unfolding n
    by (simp add: finalized_eq)
      (simp add: joined_eq primitives addresses finalize_battle_def Let_def)
  from end_to_end_balances [OF c j f] c j f show ?thesis by blast
qed

subsection \<open>The recorded admin address\<close>

text \<open>
  Claim C10. The admin address that the sender passes to \<open>create_battle\<close> is stored as
  given and is never validated: whether \<open>create_battle\<close> succeeds does not depend on
  it, so it may be any address, the opponent's or the sender's own included.
  \<open>finalize_battle\<close> never consults it, \<open>join_battle\<close> only carries it along, and
  \<open>get_battle_info\<close> does not return it. Its only effect is in \<open>cancel_battle\<close>, which
  compares it with the sender: changing the field changes the result of
  \<open>cancel_battle\<close> only for a sender equal to the old or the new address, and on an open
  battle a cancel transaction sent from the recorded admin address succeeds although
  that address owns no \<open>AdminCap\<close>.
\<close>

theorem stored_admin_only_matters_to_cancel:
  "((\<exists>w'. create_battle stake opponent adm ctx w = Inr w') \<longleftrightarrow>
      (\<exists>w'. create_battle stake opponent adm' ctx w = Inr w'))
   \<and> (\<forall>w'. create_battle stake opponent adm ctx w = Inr w' \<longrightarrow>
         (\<exists>b. shared w' (next_uid w) = Some b \<and> admin b = adm))
   \<and> finalize_battle cap (b\<lparr>admin := x\<rparr>) winner ctx w = finalize_battle cap b winner ctx w
   \<and> join_battle (b\<lparr>admin := x\<rparr>) stake ctx w
        = map_sum id (\<lambda>(b', w'). (b'\<lparr>admin := x\<rparr>, w')) (join_battle b stake ctx w)
   \<and> get_battle_info (b\<lparr>admin := x\<rparr>) = get_battle_info b
   \<and> (tx_sender ctx \<noteq> admin b \<and> tx_sender ctx \<noteq> x \<longrightarrow>
         cancel_battle (b\<lparr>admin := x\<rparr>) ctx w = cancel_battle b ctx w)
   \<and> (shared w bid = Some b \<and> \<not> is_ready b \<and> player2_stake b = None
        \<and> caps w (admin b) = [] \<longrightarrow>
         exec (TxCancel (admin b) bid) w
           = Inr (object_delete (uid b)
                    (event_emit (BattleCancelled (uid b) (player1 b))
                       (public_transfer (player1_stake b) (player1 b) w))))"
proof -
  have 1: "(\<exists>w'. create_battle stake opponent adm ctx w = Inr w') \<longleftrightarrow>
      (\<exists>w'. create_battle stake opponent adm' ctx w = Inr w')"
    by (simp add: create_battle_def Let_def object_new_def)
  have 2: "\<forall>w'. create_battle stake opponent adm ctx w = Inr w' \<longrightarrow>
         (\<exists>b. shared w' (next_uid w) = Some b \<and> admin b = adm)"
    by (auto dest!: create_battle_Inr(3))
  have 3: "finalize_battle cap (b\<lparr>admin := x\<rparr>) winner ctx w
             = finalize_battle cap b winner ctx w"
    by (simp add: finalize_battle_def split: sum.splits)
  have 4: "join_battle (b\<lparr>admin := x\<rparr>) stake ctx w
        = map_sum id (\<lambda>(b', w'). (b'\<lparr>admin := x\<rparr>, w')) (join_battle b stake ctx w)"
    by (simp add: join_battle_def Let_def option_fill_def event_emit_def split: option.splits)
  have 5: "get_battle_info (b\<lparr>admin := x\<rparr>) = get_battle_info b"
    by (simp add: get_battle_info_def)
  have 6: "tx_sender ctx \<noteq> admin b \<and> tx_sender ctx \<noteq> x \<longrightarrow>
         cancel_battle (b\<lparr>admin := x\<rparr>) ctx w = cancel_battle b ctx w"
    by (simp add: cancel_battle_def Let_def split: sum.splits)
  have 7: "shared w bid = Some b \<and> \<not> is_ready b \<and> player2_stake b = None
        \<and> caps w (admin b) = [] \<longrightarrow>
         exec (TxCancel (admin b) bid) w
           = Inr (object_delete (uid b)
                    (event_emit (BattleCancelled (uid b) (player1 b))
                       (public_transfer (player1_stake b) (player1 b) w)))"
    by (simp add: cancel_battle_def Let_def option_destroy_none_def)
  from 1 2 3 4 5 6 7 show ?thesis by blast
qed

theorem stored_admin_only_matters_to_cancel_witness:
  "(\<exists>w'. create_battle (Coin 500) BOB BOB \<lparr>tx_sender = ALICE\<rparr> setup_test = Inr w')
   \<and> (\<exists>w'. create_battle (Coin 500) BOB ALICE \<lparr>tx_sender = ALICE\<rparr> setup_test = Inr w')
   \<and> shared (opened CHARLIE) 1 = Some
        \<lparr>uid = 1, player1 = ALICE, player2 = BOB, player1_stake = Coin 500,
         player2_stake = None, stake_amount = 500, is_ready = False, admin = CHARLIE\<rparr>
   \<and> caps (opened CHARLIE) CHARLIE = []
   \<and> (\<exists>w'. exec (TxCancel CHARLIE 1) (opened CHARLIE) = Inr w'
         \<and> shared w' 1 = None \<and> coins w' ALICE = [Coin 500, Coin 1500])"
proof -
  let ?o = "\<lparr>uid = 1, player1 = ALICE, player2 = BOB, player1_stake = Coin 500,
         player2_stake = None, stake_amount = 500, is_ready = False, admin = CHARLIE\<rparr>"
  have ok: "\<exists>w'. create_battle (Coin 500) BOB ADMIN \<lparr>tx_sender = ALICE\<rparr> setup_test = Inr w'"
    by (simp add: create_battle_def Let_def object_new_def addresses)
  have 1: "\<exists>w'. create_battle (Coin 500) BOB BOB \<lparr>tx_sender = ALICE\<rparr> setup_test = Inr w'"
    using stored_admin_only_matters_to_cancel [where stake = "Coin 500" and opponent = BOB
        and adm = ADMIN and adm' = BOB and ctx = "\<lparr>tx_sender = ALICE\<rparr>"
        and w = setup_test] ok
    by blast
  have 2: "\<exists>w'. create_battle (Coin 500) BOB ALICE \<lparr>tx_sender = ALICE\<rparr> setup_test = Inr w'"
    using stored_admin_only_matters_to_cancel [where stake = "Coin 500" and opponent = BOB
        and adm = ADMIN and adm' = ALICE and ctx = "\<lparr>tx_sender = ALICE\<rparr>"
        and w = setup_test] ok
    by blast
  have o: "shared (opened CHARLIE) 1 = Some ?o" by (simp add: opened_eq addresses)
  have c: "caps (opened CHARLIE) CHARLIE = []" by (simp add: opened_eq addresses)
  have h: "shared (opened CHARLIE) 1 = Some ?o \<and> \<not> is_ready ?o \<and> player2_stake ?o = None
        \<and> caps (opened CHARLIE) (admin ?o) = []"
    using o c by simp
  from stored_admin_only_matters_to_cancel [where b = ?o and w = "opened CHARLIE"
      and bid = 1] h
  have e: "exec (TxCancel (admin ?o) 1) (opened CHARLIE)
           = Inr (object_delete (uid ?o)
                    (event_emit (BattleCancelled (uid ?o) (player1 ?o))
                       (public_transfer (player1_stake ?o) (player1 ?o) (opened CHARLIE))))"
    by blast
  have 3: "\<exists>w'. exec (TxCancel CHARLIE 1) (opened CHARLIE) = Inr w'
         \<and> shared w' 1 = None \<and> coins w' ALICE = [Coin 500, Coin 1500]"
    using e by (simp add: primitives opened_eq addresses)
  from 1 2 o c 3 show ?thesis by blast
qed

end
